theory Spec2Isabelle
  imports Main "HOL-Library.Sublist"
begin

section \<open>Exceptions, observable events and computations\<close>

text \<open>
  The program is \<^verbatim>\<open>Flipper.py\<close>: a device object whose background loop scans Wi-Fi and
  Bluetooth, drives a status LED and refreshes a small display. Every step of it talks to
  the outside world (GPIO, a subprocess, the Bluetooth library, the display driver, the
  logger, the clock), and most steps sit inside a \<^verbatim>\<open>try/except Exception\<close>.

  A Python exception is a value: its class name and the text that \<^verbatim>\<open>str(e)\<close> gives, which
  is what the f-strings of the log messages print.
\<close>

datatype exn = Exception (exn_type: string) (exn_str: string)

datatype level = INFO | WARNING | ERROR

datatype pin_level = LOW | HIGH

text \<open>
  The methods of \<^verbatim>\<open>FlipperPiDevice\<close> (and of the two inline helper classes) whose
  invocation is observed. \<open>Nfc_read\<close> is \<^verbatim>\<open>NFCReader.read\<close>.
\<close>

datatype routine = Wifi_scan | Advanced_bluetooth_scan | Update_display | Nfc_read

text \<open>
  What one can observe of a run, in order: a method of the device being entered, and every
  effect on a collaborator that went through. A call to a collaborator that raises leaves no
  event of its own: the exception is what is seen of it.
\<close>

datatype event =
    Call routine
  | Gpio_output nat pin_level
  | Check_output "string list"
  | Discover_devices nat
  | Find_service string
  | Display_fill nat
  | Display_text string nat nat nat
  | Display_show
  | Log level string
  | Print string
  | Sleep nat

text \<open>
  A computation yields the events it produced and either the exception that ended it
  (\<open>Inl\<close>) or its value (\<open>Inr\<close>).
\<close>

type_synonym 'a comp = "event list \<times> (exn + 'a)"

definition ret :: "'a \<Rightarrow> 'a comp" where
  "ret x = ([], Inr x)"

definition raise :: "exn \<Rightarrow> 'a comp" where
  "raise e = ([], Inl e)"

definition emit :: "event \<Rightarrow> unit comp" where
  "emit ev = ([ev], Inr ())"

text \<open>Sequencing: an exception in the first part skips the second.\<close>

definition bind :: "'a comp \<Rightarrow> ('a \<Rightarrow> 'b comp) \<Rightarrow> 'b comp" where
  "bind m f =
     (case m of
        (t, Inl e) \<Rightarrow> (t, Inl e)
      | (t, Inr x) \<Rightarrow> (case f x of (t', r) \<Rightarrow> (t @ t', r)))"

text \<open>\<^verbatim>\<open>try: m  except Exception as e: h e\<close>. The events of the part of \<open>m\<close> that ran stay.\<close>

definition try_except :: "'a comp \<Rightarrow> (exn \<Rightarrow> 'a comp) \<Rightarrow> 'a comp" where
  "try_except m h =
     (case m of
        (t, Inl e) \<Rightarrow> (case h e of (t', r) \<Rightarrow> (t @ t', r))
      | (t, Inr x) \<Rightarrow> (t, Inr x))"

text \<open>
  A call to a collaborator whose outcome the environment decides: it raises, or it has its
  effect \<open>ev\<close> and returns.
\<close>

definition extern :: "event \<Rightarrow> exn + 'a \<Rightarrow> 'a comp" where
  "extern ev outcome =
     (case outcome of Inl e \<Rightarrow> raise e | Inr v \<Rightarrow> bind (emit ev) (\<lambda>_. ret v))"

section \<open>Python strings and lists\<close>

text \<open>
  \<^verbatim>\<open>s.split(c)\<close> for a one-character separator: one more piece than separators. The
  result is never empty, so the first branch of the \<open>case\<close> is never taken.
\<close>

fun split_str :: "char \<Rightarrow> string \<Rightarrow> string list" where
  "split_str c [] = [[]]"
| "split_str c (x # xs) =
     (if x = c then [] # split_str c xs
      else (case split_str c xs of
              [] \<Rightarrow> [[x]]
            | piece # pieces \<Rightarrow> (x # piece) # pieces))"

text \<open>\<^verbatim>\<open>sub in s\<close> on strings.\<close>

fun is_in :: "string \<Rightarrow> string \<Rightarrow> bool" where
  "is_in sub [] = (sub = [])"
| "is_in sub (x # xs) = (prefix sub (x # xs) \<or> is_in sub xs)"

text \<open>\<^verbatim>\<open>xs[i]\<close> for \<open>i \<ge> 0\<close>: out of range raises IndexError.\<close>

definition index :: "'a list \<Rightarrow> nat \<Rightarrow> 'a comp" where
  "index xs i =
     (if i < length xs then ret (xs ! i)
      else raise (Exception ''IndexError'' ''list index out of range''))"

text \<open>\<^verbatim>\<open>str(n)\<close> for the \<^verbatim>\<open>len(...)\<close> inside the f-strings.\<close>

fun str_nat :: "nat \<Rightarrow> string" where
  "str_nat n =
     (if n < 10 then [char_of (48 + n)]
      else str_nat (n div 10) @ [char_of (48 + n mod 10)])"

declare str_nat.simps [simp del]

definition newline :: char where
  "newline = CHR 0x0A"

definition dquote :: char where
  "dquote = CHR 0x22"

section \<open>The device and its collaborators\<close>

text \<open>
  \<^verbatim>\<open>{'ssid': essid}\<close> and the dictionary of a Bluetooth device. The key
  \<^verbatim>\<open>'services'\<close> is absent (\<open>None\<close>) in what \<^verbatim>\<open>discover\<close> builds and is added by
  \<^verbatim>\<open>advanced_bluetooth_scan\<close>. What \<^verbatim>\<open>bluetooth.find_service\<close> returns is passed
  through as it is; a service is kept as a string here.
\<close>

record network =
  ssid :: string

type_synonym service = string

record bt_device =
  address :: string
  name :: string
  services :: "service list option"

text \<open>The two inline classes have no fields.\<close>

datatype NFCReader = NFCReader

datatype BluetoothScanner = BluetoothScanner

text \<open>
  The attributes of \<^verbatim>\<open>self\<close> the scan loop reads. \<open>has_display\<close> is
  \<^verbatim>\<open>hasattr(self, 'display')\<close>. For the two readers \<open>None\<close> is Python's \<^verbatim>\<open>None\<close>, which
  the \<^verbatim>\<open>initialize_*\<close> methods return from their handlers; the attributes themselves
  are always set, because neither method lets an exception out.
\<close>

record device =
  has_display :: bool
  nfc_reader :: "NFCReader option"
  bluetooth_scanner :: "BluetoothScanner option"

definition LED_PIN :: nat where
  "LED_PIN = 18"

text \<open>
  What the collaborators do during one cycle of the loop: the outcome of each call the cycle
  can make. \<^verbatim>\<open>bluetooth.find_service\<close> is asked once per discovered address.
\<close>

record env =
  gpio_output_high :: "exn + unit"
  check_output :: "exn + string"
  bt_discover_devices :: "exn + (string \<times> string) list"
  bt_find_service :: "string \<Rightarrow> exn + service list"
  display_fill :: "exn + unit"
  display_text_wifi :: "exn + unit"
  display_text_bt :: "exn + unit"
  display_show :: "exn + unit"
  gpio_output_low :: "exn + unit"

section \<open>Setup\<close>

text \<open>
  \<^verbatim>\<open>setup_modules\<close>: the display is created inside a \<^verbatim>\<open>try\<close> whose handler logs a
  warning. \<^verbatim>\<open>self.display\<close> is assigned once the I2C bus and the driver object exist, also
  when clearing the screen fails afterwards.
\<close>

record setup_env =
  board_I2C :: "exn + unit"
  SSD1306_I2C :: "exn + unit"
  setup_fill :: "exn + unit"
  setup_show :: "exn + unit"

definition display_warning :: "exn \<Rightarrow> unit comp" where
  "display_warning e =
     emit (Log WARNING (''Erro na configura'' @ [CHR 0xC3, CHR 0xA7, CHR 0xC3, CHR 0xA3]
                          @ ''o do display: '' @ exn_str e))"

definition setup_display :: "setup_env \<Rightarrow> bool comp" where
  "setup_display s =
     (case board_I2C s of
        Inl e \<Rightarrow> bind (display_warning e) (\<lambda>_. ret False)
      | Inr _ \<Rightarrow>
        (case SSD1306_I2C s of
           Inl e \<Rightarrow> bind (display_warning e) (\<lambda>_. ret False)
         | Inr _ \<Rightarrow>
           bind (try_except
                   (bind (extern (Display_fill 0) (setup_fill s))
                      (\<lambda>_. extern Display_show (setup_show s)))
                   display_warning)
             (\<lambda>_. ret True)))"

definition initialize_nfc :: "NFCReader option" where
  "initialize_nfc = Some NFCReader"

definition initialize_bluetooth :: "BluetoothScanner option" where
  "initialize_bluetooth = Some BluetoothScanner"

definition setup_modules :: "setup_env \<Rightarrow> device comp" where
  "setup_modules s =
     bind (setup_display s) (\<lambda>d.
       ret \<lparr>has_display = d, nfc_reader = initialize_nfc,
            bluetooth_scanner = initialize_bluetooth\<rparr>)"

text \<open>\<^verbatim>\<open>NFCReader.read\<close>: the stub's fixed answer.\<close>

definition read :: "NFCReader \<Rightarrow> string comp" where
  "read r = bind (emit (Call Nfc_read)) (\<lambda>_. ret ''Nenhuma tag detectada'')"

section \<open>Wi-Fi scan\<close>

text \<open>
  The \<^verbatim>\<open>for line in output.split('\n')\<close> loop with its list \<^verbatim>\<open>networks\<close>. A line
  with the marker and no double quote makes \<^verbatim>\<open>line.split('"')[1]\<close> raise, which ends
  the loop.
\<close>

fun wifi_scan_lines :: "string list \<Rightarrow> network list \<Rightarrow> network list comp" where
  "wifi_scan_lines [] networks = ret networks"
| "wifi_scan_lines (line # rest) networks =
     (if is_in ''ESSID'' line
      then bind (index (split_str dquote line) 1) (\<lambda>essid.
             wifi_scan_lines rest (networks @ [\<lparr>ssid = essid\<rparr>]))
      else wifi_scan_lines rest networks)"

definition wifi_scan_try :: "env \<Rightarrow> network list comp" where
  "wifi_scan_try env =
     bind (extern (Check_output [''iwlist'', ''wlan0'', ''scan'']) (check_output env))
       (\<lambda>output. wifi_scan_lines (split_str newline output) [])"

definition wifi_scan_body :: "env \<Rightarrow> network list comp" where
  "wifi_scan_body env =
     try_except (wifi_scan_try env)
       (\<lambda>e. bind (emit (Log ERROR (''Erro na varredura WiFi: '' @ exn_str e)))
              (\<lambda>_. ret []))"

definition wifi_scan :: "env \<Rightarrow> network list comp" where
  "wifi_scan env = bind (emit (Call Wifi_scan)) (\<lambda>_. wifi_scan_body env)"

section \<open>Bluetooth scan\<close>

text \<open>
  \<^verbatim>\<open>BluetoothScanner.discover\<close>: the library call and the loop over its pairs are inside
  the \<^verbatim>\<open>try\<close>; the handler prints and the list built so far (empty, since only the call
  can raise) is returned.
\<close>

definition discover :: "BluetoothScanner \<Rightarrow> env \<Rightarrow> nat \<Rightarrow> bt_device list comp" where
  "discover scanner env duration =
     try_except
       (bind (extern (Discover_devices duration) (bt_discover_devices env))
          (\<lambda>nearby_devices.
             ret (map (\<lambda>(addr, nm). \<lparr>address = addr, name = nm, services = None\<rparr>)
                    nearby_devices)))
       (\<lambda>e. bind (emit (Print (''Erro na varredura Bluetooth: '' @ exn_str e)))
              (\<lambda>_. ret []))"

text \<open>One round of the \<^verbatim>\<open>for device in devices\<close> loop: the lookup and its handler.\<close>

definition lookup_services :: "env \<Rightarrow> bt_device \<Rightarrow> bt_device comp" where
  "lookup_services env dv =
     try_except
       (bind (extern (Find_service (address dv)) (bt_find_service env (address dv)))
          (\<lambda>found. ret (dv\<lparr>services := Some found\<rparr>)))
       (\<lambda>_. ret (dv\<lparr>services := Some []\<rparr>))"

fun advanced_bluetooth_scan_loop ::
  "env \<Rightarrow> bt_device list \<Rightarrow> bt_device list \<Rightarrow> bt_device list comp" where
  "advanced_bluetooth_scan_loop env [] detailed_devices = ret detailed_devices"
| "advanced_bluetooth_scan_loop env (dv # rest) detailed_devices =
     bind (lookup_services env dv) (\<lambda>dv'.
       advanced_bluetooth_scan_loop env rest (detailed_devices @ [dv']))"

definition advanced_bluetooth_scan_body :: "device \<Rightarrow> env \<Rightarrow> bt_device list comp" where
  "advanced_bluetooth_scan_body dev env =
     (case bluetooth_scanner dev of
        None \<Rightarrow> ret []
      | Some scanner \<Rightarrow>
          bind (discover scanner env 8) (\<lambda>devices.
            advanced_bluetooth_scan_loop env devices []))"

definition advanced_bluetooth_scan :: "device \<Rightarrow> env \<Rightarrow> bt_device list comp" where
  "advanced_bluetooth_scan dev env =
     bind (emit (Call Advanced_bluetooth_scan)) (\<lambda>_. advanced_bluetooth_scan_body dev env)"

section \<open>Display\<close>

definition update_display_try ::
  "device \<Rightarrow> env \<Rightarrow> network list \<Rightarrow> bt_device list \<Rightarrow> unit comp" where
  "update_display_try dev env wifi_nets bt_devices =
     (if \<not> has_display dev then ret ()
      else
        bind (extern (Display_fill 0) (display_fill env)) (\<lambda>_.
        bind (extern (Display_text (''WiFi: '' @ str_nat (length wifi_nets)) 0 0 1)
                (display_text_wifi env)) (\<lambda>_.
        bind (extern (Display_text (''BT: '' @ str_nat (length bt_devices)) 0 10 1)
                (display_text_bt env)) (\<lambda>_.
        extern Display_show (display_show env)))))"

definition update_display_body ::
  "device \<Rightarrow> env \<Rightarrow> network list \<Rightarrow> bt_device list \<Rightarrow> unit comp" where
  "update_display_body dev env wifi_nets bt_devices =
     try_except (update_display_try dev env wifi_nets bt_devices)
       (\<lambda>e. emit (Log ERROR (''Erro ao atualizar display: '' @ exn_str e)))"

definition update_display ::
  "device \<Rightarrow> env \<Rightarrow> network list \<Rightarrow> bt_device list \<Rightarrow> unit comp" where
  "update_display dev env wifi_nets bt_devices =
     bind (emit (Call Update_display)) (\<lambda>_. update_display_body dev env wifi_nets bt_devices)"

section \<open>The scan loop\<close>

text \<open>The body of the \<^verbatim>\<open>try\<close> inside \<^verbatim>\<open>while True\<close>.\<close>

definition scan_loop_try :: "device \<Rightarrow> env \<Rightarrow> unit comp" where
  "scan_loop_try dev env =
     bind (extern (Gpio_output LED_PIN HIGH) (gpio_output_high env)) (\<lambda>_.
     bind (wifi_scan env) (\<lambda>wifi_nets.
     bind (advanced_bluetooth_scan dev env) (\<lambda>bt_devices.
     bind (emit (Log INFO (''WiFi: '' @ str_nat (length wifi_nets) @ '' redes''))) (\<lambda>_.
     bind (emit (Log INFO (''Bluetooth: '' @ str_nat (length bt_devices) @ '' dispositivos'')))
       (\<lambda>_.
     bind (update_display dev env wifi_nets bt_devices) (\<lambda>_.
     bind (emit (Sleep 10)) (\<lambda>_.
     bind (extern (Gpio_output LED_PIN LOW) (gpio_output_low env)) (\<lambda>_.
     emit (Sleep 2)))))))))"

text \<open>One iteration: the \<^verbatim>\<open>try\<close> and the loop's handler.\<close>

definition scan_loop_iteration :: "device \<Rightarrow> env \<Rightarrow> unit comp" where
  "scan_loop_iteration dev env =
     try_except (scan_loop_try dev env)
       (\<lambda>e. bind (emit (Log ERROR (''Erro no loop de varredura: '' @ exn_str e)))
              (\<lambda>_. emit (Sleep 5)))"

text \<open>
  \<^verbatim>\<open>while True\<close> has no \<^verbatim>\<open>break\<close> and no \<^verbatim>\<open>return\<close>: the loop can only end by
  an exception leaving an iteration. \<open>scan_loop n\<close> is the run up to the end of the first
  \<open>n\<close> iterations, iteration \<open>k\<close> meeting the collaborators in the state \<open>envs k\<close>: the
  events so far, and \<open>Some e\<close> if the loop has ended with exception \<open>e\<close>, \<open>None\<close> if it is
  still running.
\<close>

fun scan_loop :: "nat \<Rightarrow> device \<Rightarrow> (nat \<Rightarrow> env) \<Rightarrow> event list \<times> exn option" where
  "scan_loop 0 dev envs = ([], None)"
| "scan_loop (Suc n) dev envs =
     (case scan_loop n dev envs of
        (t, Some e) \<Rightarrow> (t, Some e)
      | (t, None) \<Rightarrow>
          (case scan_loop_iteration dev (envs n) of
             (t', Inl e) \<Rightarrow> (t @ t', Some e)
           | (t', Inr _) \<Rightarrow> (t @ t', None)))"

section \<open>Reading a run\<close>

text \<open>The value of a computation that returned.\<close>

definition returned :: "'a comp \<Rightarrow> 'a" where
  "returned c = projr (snd c)"

text \<open>
  The events of a cycle between switching the LED on and the dwell: the two scans, the two
  count lines of the log and the display update, each fed the lists the scans returned.
\<close>

definition cycle_scans :: "device \<Rightarrow> env \<Rightarrow> event list" where
  "cycle_scans dev env =
     fst (wifi_scan env) @ fst (advanced_bluetooth_scan dev env) @
     [Log INFO (''WiFi: '' @ str_nat (length (returned (wifi_scan env))) @ '' redes''),
      Log INFO (''Bluetooth: '' @ str_nat (length (returned (advanced_bluetooth_scan dev env)))
                  @ '' dispositivos'')] @
     fst (update_display dev env (returned (wifi_scan env))
            (returned (advanced_bluetooth_scan dev env)))"

text \<open>What one round of the service lookup leaves in a device's dictionary.\<close>

definition with_services :: "env \<Rightarrow> bt_device \<Rightarrow> bt_device" where
  "with_services env dv =
     dv\<lparr>services := Some (case bt_find_service env (address dv) of
                            Inl _ \<Rightarrow> [] | Inr found \<Rightarrow> found)\<rparr>"

text \<open>The time a run spends in \<^verbatim>\<open>time.sleep\<close>.\<close>

fun slept :: "event \<Rightarrow> nat" where
  "slept (Sleep d) = d"
| "slept _ = 0"

definition sleep_total :: "event list \<Rightarrow> nat" where
  "sleep_total t = sum_list (map slept t)"

text \<open>An entry of the log written by the handler of the scan loop.\<close>

fun is_loop_error :: "event \<Rightarrow> bool" where
  "is_loop_error (Log ERROR m) = prefix ''Erro no loop de varredura: '' m"
| "is_loop_error _ = False"

section \<open>Sample inputs\<close>

text \<open>
  A device whose setup went through, and a cycle in which every collaborator answers except
  the service lookup: the scanning tool prints two cells, one with the line
  \<^verbatim>\<open>ESSID:"Home"\<close> and one with \<^verbatim>\<open>ESSID:"Cafe"\<close>, and discovery finds one phone.
\<close>

definition sample_device :: device where
  "sample_device =
     \<lparr>has_display = True, nfc_reader = Some NFCReader,
      bluetooth_scanner = Some BluetoothScanner\<rparr>"

definition sample_output :: string where
  "sample_output =
     ''Cell 01 - Address: 00:11:22:33:44:55'' @ newline #
     ''    ESSID:'' @ dquote # ''Home'' @ dquote # newline #
     ''Cell 02 - Address: 66:77:88:99:AA:BB'' @ newline #
     ''    ESSID:'' @ dquote # ''Cafe'' @ dquote # [newline]"

definition sample_env :: env where
  "sample_env =
     \<lparr>gpio_output_high = Inr (),
      check_output = Inr sample_output,
      bt_discover_devices = Inr [(''AA:BB'', ''Phone'')],
      bt_find_service = (\<lambda>_. Inl (Exception ''BluetoothError'' ''Host is down'')),
      display_fill = Inr (),
      display_text_wifi = Inr (),
      display_text_bt = Inr (),
      display_show = Inr (),
      gpio_output_low = Inr ()\<rparr>"

text \<open>\<^verbatim>\<open>GPIO.output\<close> on a channel that is not set up, as after \<^verbatim>\<open>GPIO.cleanup()\<close>.\<close>

definition gpio_error :: exn where
  "gpio_error =
     Exception ''RuntimeError'' ''The GPIO channel has not been set up as an OUTPUT''"

text \<open>The scanning tool is not installed.\<close>

definition iwlist_missing :: exn where
  "iwlist_missing =
     Exception ''FileNotFoundError'' ''[Errno 2] No such file or directory: iwlist''"

text \<open>The display driver cannot load its font.\<close>

definition font_missing :: exn where
  "font_missing = Exception ''OSError'' ''[Errno 2] No such file or directory: font5x8.bin''"

text \<open>The board has no I2C bus.\<close>

definition no_i2c :: exn where
  "no_i2c = Exception ''ValueError'' ''No Hardware I2C on (scl,sda)''"

text \<open>Output cut off after the marker of the second cell: no quote on its last line.\<close>

definition truncated_output :: string where
  "truncated_output =
     ''    ESSID:'' @ dquote # ''Home'' @ dquote # newline # ''    ESSID:''"

text \<open>No Bluetooth adapter.\<close>

definition no_adapter :: exn where
  "no_adapter = Exception ''OSError'' ''No such device''"

text \<open>The display driver fails on the first line of text.\<close>

definition font_missing_env :: env where
  "font_missing_env = sample_env\<lparr>display_text_wifi := Inl font_missing\<rparr>"

text \<open>A setup in which \<^verbatim>\<open>board.I2C()\<close> raises.\<close>

definition no_bus_setup :: setup_env where
  "no_bus_setup =
     \<lparr>board_I2C = Inl no_i2c, SSD1306_I2C = Inr (), setup_fill = Inr (), setup_show = Inr ()\<rparr>"

text \<open>A run in which switching the LED on raises in cycle \<open>k\<close> and all else goes well.\<close>

definition gpio_fault_at :: "nat \<Rightarrow> nat \<Rightarrow> env" where
  "gpio_fault_at k n =
     (if n = k then sample_env\<lparr>gpio_output_high := Inl gpio_error\<rparr> else sample_env)"

section \<open>Auxiliary facts\<close>

subsection \<open>Strings\<close>

lemma split_str_not_Nil: "split_str c s \<noteq> []"
  by (induction s) (auto split: list.splits)

lemma split_str_no_separator: "c \<notin> set s \<Longrightarrow> split_str c s = [s]"
  by (induction s) auto

lemma split_str_at_separator:
  "c \<notin> set pre \<Longrightarrow> split_str c (pre @ c # rest) = pre # split_str c rest"
  by (induction pre) auto

lemma split_str_short_iff: "length (split_str c s) < 2 \<longleftrightarrow> c \<notin> set s"
proof (induction s)
  case Nil
  show ?case by simp
next
  case (Cons x xs)
  show ?case
  proof (cases "x = c")
    case True
    then show ?thesis using split_str_not_Nil [of c xs] by (cases "split_str c xs") auto
  next
    case False
    then show ?thesis using Cons.IH split_str_not_Nil [of c xs]
      by (cases "split_str c xs") auto
  qed
qed

subsection \<open>Wi-Fi scan\<close>

lemma wifi_scan_lines_silent: "fst (wifi_scan_lines ls nets) = []"
  by (induction ls arbitrary: nets)
    (auto simp: bind_def index_def ret_def raise_def split: prod.splits sum.splits)

lemma wifi_scan_lines_quoted:
  "list_all2 (\<lambda>line ident. \<exists>pre post. line = pre @ dquote # ident @ dquote # post
                 \<and> dquote \<notin> set pre \<and> dquote \<notin> set ident)
     (filter (is_in ''ESSID'') ls) idents \<Longrightarrow>
   wifi_scan_lines ls nets = ([], Inr (nets @ map (\<lambda>ident. \<lparr>ssid = ident\<rparr>) idents))"
proof (induction ls arbitrary: nets idents)
  case Nil
  then show ?case by (simp add: ret_def)
next
  case (Cons line ls)
  show ?case
  proof (cases "is_in ''ESSID'' line")
    case False
    then show ?thesis using Cons by simp
  next
    case True
    with Cons.prems obtain ident rest pre post where
      idents: "idents = ident # rest" and
      line: "line = pre @ dquote # ident @ dquote # post" and
      pre: "dquote \<notin> set pre" and ident: "dquote \<notin> set ident" and
      rest: "list_all2 (\<lambda>line ident. \<exists>pre post. line = pre @ dquote # ident @ dquote # post
                 \<and> dquote \<notin> set pre \<and> dquote \<notin> set ident)
               (filter (is_in ''ESSID'') ls) rest"
      by (auto simp: list_all2_Cons1)
    have "split_str dquote line = pre # ident # split_str dquote post"
      using split_str_at_separator [OF pre, of "ident @ dquote # post"]
        split_str_at_separator [OF ident, of post]
      by (simp add: line)
    then have "index (split_str dquote line) 1 = ret ident"
      by (simp add: index_def)
    then show ?thesis
      using True Cons.IH [OF rest, of "nets @ [\<lparr>ssid = ident\<rparr>]"]
      by (simp add: bind_def ret_def idents)
  qed
qed

lemma wifi_scan_lines_unquoted:
  "line \<in> set ls \<Longrightarrow> is_in ''ESSID'' line \<Longrightarrow> length (split_str dquote line) < 2 \<Longrightarrow>
   wifi_scan_lines ls nets = ([], Inl (Exception ''IndexError'' ''list index out of range''))"
proof (induction ls arbitrary: nets)
  case Nil
  then show ?case by simp
next
  case (Cons l ls)
  show ?case
  proof (cases "is_in ''ESSID'' l")
    case False
    with Cons.prems have "line \<in> set ls" by auto
    then show ?thesis using False Cons.IH Cons.prems by simp
  next
    case True
    show ?thesis
    proof (cases "length (split_str dquote l) < 2")
      case short: True
      then show ?thesis using True by (simp add: index_def bind_def raise_def)
    next
      case long: False
      with Cons.prems have "line \<in> set ls" by auto
      then have "wifi_scan_lines ls (nets @ [\<lparr>ssid = split_str dquote l ! 1\<rparr>]) =
          ([], Inl (Exception ''IndexError'' ''list index out of range''))"
        using Cons.IH Cons.prems by blast
      then show ?thesis using True long by (simp add: index_def bind_def ret_def)
    qed
  qed
qed

lemma wifi_scan_cases:
  "wifi_scan env =
     (case check_output env of
        Inl e \<Rightarrow> ([Call Wifi_scan, Log ERROR (''Erro na varredura WiFi: '' @ exn_str e)], Inr [])
      | Inr out \<Rightarrow>
          (case snd (wifi_scan_lines (split_str newline out) []) of
             Inl e \<Rightarrow> ([Call Wifi_scan, Check_output [''iwlist'', ''wlan0'', ''scan''],
                        Log ERROR (''Erro na varredura WiFi: '' @ exn_str e)], Inr [])
           | Inr nets \<Rightarrow>
               ([Call Wifi_scan, Check_output [''iwlist'', ''wlan0'', ''scan'']], Inr nets)))"
proof (cases "check_output env")
  case (Inl e)
  then show ?thesis
    by (simp add: wifi_scan_def wifi_scan_body_def wifi_scan_try_def bind_def try_except_def
          extern_def emit_def ret_def raise_def)
next
  case (Inr out)
  obtain r where "wifi_scan_lines (split_str newline out) [] = ([], r)"
    using wifi_scan_lines_silent [of "split_str newline out" "[]"]
    by (cases "wifi_scan_lines (split_str newline out) []") simp
  then show ?thesis using Inr
    by (simp add: wifi_scan_def wifi_scan_body_def wifi_scan_try_def bind_def try_except_def
          extern_def emit_def ret_def split: sum.splits)
qed

lemma wifi_scan_returns: "\<exists>t nets. wifi_scan env = (Call Wifi_scan # t, Inr nets)"
  by (simp add: wifi_scan_cases split: sum.splits)

lemma wifi_scan_events:
  "ev \<in> set (fst (wifi_scan env)) \<Longrightarrow>
     ev = Call Wifi_scan \<or> ev = Check_output [''iwlist'', ''wlan0'', ''scan'']
     \<or> (\<exists>m. ev = Log ERROR (''Erro na varredura WiFi: '' @ m))"
  by (auto simp: wifi_scan_cases split: sum.splits)

subsection \<open>Bluetooth scan\<close>

lemma lookup_services_cases:
  "lookup_services env dv =
     (case bt_find_service env (address dv) of
        Inl e \<Rightarrow> ([], Inr (with_services env dv))
      | Inr found \<Rightarrow> ([Find_service (address dv)], Inr (with_services env dv)))"
  by (simp add: lookup_services_def with_services_def bind_def try_except_def extern_def
        emit_def ret_def raise_def split: sum.splits)

lemma lookup_services_returns: "snd (lookup_services env dv) = Inr (with_services env dv)"
  by (simp add: lookup_services_cases split: sum.splits)

lemma lookup_services_events:
  "ev \<in> set (fst (lookup_services env dv)) \<Longrightarrow> ev = Find_service (address dv)"
  by (simp add: lookup_services_cases split: sum.splits)

lemma advanced_bluetooth_scan_loop_eq:
  "advanced_bluetooth_scan_loop env ds acc =
     (concat (map (\<lambda>dv. fst (lookup_services env dv)) ds),
      Inr (acc @ map (with_services env) ds))"
proof (induction ds arbitrary: acc)
  case Nil
  show ?case by (simp add: ret_def)
next
  case (Cons dv ds)
  obtain t where t: "lookup_services env dv = (t, Inr (with_services env dv))"
    using lookup_services_returns [of env dv] by (cases "lookup_services env dv") simp
  show ?case by (simp add: bind_def t Cons.IH)
qed

lemma discover_cases:
  "discover sc env d =
     (case bt_discover_devices env of
        Inl e \<Rightarrow> ([Print (''Erro na varredura Bluetooth: '' @ exn_str e)], Inr [])
      | Inr nearby \<Rightarrow>
          ([Discover_devices d],
           Inr (map (\<lambda>(addr, nm). \<lparr>address = addr, name = nm, services = None\<rparr>) nearby)))"
  by (simp add: discover_def bind_def try_except_def extern_def emit_def ret_def raise_def
        split: sum.splits)

lemma advanced_bluetooth_scan_cases:
  "advanced_bluetooth_scan dev env =
     (case bluetooth_scanner dev of
        None \<Rightarrow> ([Call Advanced_bluetooth_scan], Inr [])
      | Some sc \<Rightarrow>
          (case bt_discover_devices env of
             Inl e \<Rightarrow> ([Call Advanced_bluetooth_scan,
                        Print (''Erro na varredura Bluetooth: '' @ exn_str e)], Inr [])
           | Inr nearby \<Rightarrow>
               (Call Advanced_bluetooth_scan # Discover_devices 8 #
                  concat (map (\<lambda>dv. fst (lookup_services env dv))
                    (map (\<lambda>(addr, nm). \<lparr>address = addr, name = nm, services = None\<rparr>)
                       nearby)),
                Inr (map (with_services env)
                  (map (\<lambda>(addr, nm). \<lparr>address = addr, name = nm, services = None\<rparr>)
                     nearby)))))"
  by (simp add: advanced_bluetooth_scan_def advanced_bluetooth_scan_body_def bind_def emit_def
        ret_def discover_cases advanced_bluetooth_scan_loop_eq split: option.splits sum.splits)

lemma advanced_bluetooth_scan_returns:
  "\<exists>t devs. advanced_bluetooth_scan dev env = (Call Advanced_bluetooth_scan # t, Inr devs)"
  by (simp add: advanced_bluetooth_scan_cases split: option.splits sum.splits)

lemma advanced_bluetooth_scan_events:
  "ev \<in> set (fst (advanced_bluetooth_scan dev env)) \<Longrightarrow>
     ev = Call Advanced_bluetooth_scan \<or> ev = Discover_devices 8
     \<or> (\<exists>a. ev = Find_service a) \<or> (\<exists>m. ev = Print m)"
  by (auto simp: advanced_bluetooth_scan_cases split: option.splits sum.splits
        dest: lookup_services_events)

subsection \<open>Display\<close>

lemma update_display_returns:
  "\<exists>t. update_display dev env wifi_nets bt_devices = (Call Update_display # t, Inr ())"
  by (auto simp: update_display_def update_display_body_def update_display_try_def bind_def
        try_except_def extern_def emit_def ret_def raise_def split: sum.splits)

lemma update_display_events:
  "ev \<in> set (fst (update_display dev env wifi_nets bt_devices)) \<Longrightarrow>
     ev = Call Update_display \<or> ev = Display_fill 0 \<or> ev = Display_show
     \<or> (\<exists>s y. ev = Display_text s 0 y 1)
     \<or> (\<exists>m. ev = Log ERROR (''Erro ao atualizar display: '' @ m))"
  by (auto simp: update_display_def update_display_body_def update_display_try_def bind_def
        try_except_def extern_def emit_def ret_def raise_def split: sum.splits if_splits)

subsection \<open>The cycle and the loop\<close>

lemma scan_loop_try_cases:
  "scan_loop_try dev env =
     (case gpio_output_high env of
        Inl e \<Rightarrow> ([], Inl e)
      | Inr _ \<Rightarrow>
          (case gpio_output_low env of
             Inl e \<Rightarrow> (Gpio_output LED_PIN HIGH # cycle_scans dev env @ [Sleep 10], Inl e)
           | Inr _ \<Rightarrow> (Gpio_output LED_PIN HIGH # cycle_scans dev env @
                        [Sleep 10, Gpio_output LED_PIN LOW, Sleep 2], Inr ())))"
proof -
  obtain tw nets where w: "wifi_scan env = (tw, Inr nets)"
    using wifi_scan_returns [of env] by blast
  obtain tb devs where b: "advanced_bluetooth_scan dev env = (tb, Inr devs)"
    using advanced_bluetooth_scan_returns [of dev env] by blast
  obtain td where d: "update_display dev env nets devs = (td, Inr ())"
    using update_display_returns [of dev env nets devs] by blast
  show ?thesis
    by (simp add: scan_loop_try_def cycle_scans_def returned_def w b d bind_def extern_def
          emit_def ret_def raise_def split: sum.splits)
qed

lemma scan_loop_iteration_cases:
  "scan_loop_iteration dev env =
     (case gpio_output_high env of
        Inl e \<Rightarrow> ([Log ERROR (''Erro no loop de varredura: '' @ exn_str e), Sleep 5], Inr ())
      | Inr _ \<Rightarrow>
          (case gpio_output_low env of
             Inl e \<Rightarrow> (Gpio_output LED_PIN HIGH # cycle_scans dev env @
                        [Sleep 10, Log ERROR (''Erro no loop de varredura: '' @ exn_str e),
                         Sleep 5], Inr ())
           | Inr _ \<Rightarrow> (Gpio_output LED_PIN HIGH # cycle_scans dev env @
                        [Sleep 10, Gpio_output LED_PIN LOW, Sleep 2], Inr ())))"
  by (simp add: scan_loop_iteration_def scan_loop_try_cases try_except_def bind_def emit_def
        split: sum.splits)

lemma scan_loop_iteration_returns: "snd (scan_loop_iteration dev env) = Inr ()"
  by (simp add: scan_loop_iteration_cases split: sum.splits)

lemma scan_loop_running: "snd (scan_loop n dev envs) = None"
proof (induction n)
  case 0
  show ?case by simp
next
  case (Suc n)
  then show ?case
    using scan_loop_iteration_returns [of dev "envs n"]
    by (auto split: prod.splits option.splits sum.splits)
qed

lemma scan_loop_Suc:
  "scan_loop (Suc n) dev envs =
     (fst (scan_loop n dev envs) @ fst (scan_loop_iteration dev (envs n)), None)"
  using scan_loop_running [of n dev envs] scan_loop_iteration_returns [of dev "envs n"]
  by (auto split: prod.splits option.splits sum.splits)

lemma cycle_scans_events:
  "ev \<in> set (cycle_scans dev env) \<Longrightarrow>
     (\<exists>m. ev = Call m \<and> m \<noteq> Nfc_read) \<or> ev = Check_output [''iwlist'', ''wlan0'', ''scan'']
     \<or> ev = Discover_devices 8 \<or> (\<exists>a. ev = Find_service a) \<or> (\<exists>m. ev = Print m)
     \<or> ev = Display_fill 0 \<or> ev = Display_show \<or> (\<exists>s y. ev = Display_text s 0 y 1)
     \<or> (\<exists>m. ev = Log ERROR (''Erro na varredura WiFi: '' @ m))
     \<or> (\<exists>m. ev = Log ERROR (''Erro ao atualizar display: '' @ m))
     \<or> (\<exists>m. ev = Log INFO m)"
  unfolding cycle_scans_def set_append Un_iff
  apply (elim disjE)
  subgoal using wifi_scan_events [of ev env] by auto
  subgoal using advanced_bluetooth_scan_events [of ev dev env] by auto
  subgoal by auto
  subgoal using update_display_events [of ev dev env] by auto
  done

lemma cycle_scans_no_gpio: "Gpio_output p l \<notin> set (cycle_scans dev env)"
  using cycle_scans_events [of "Gpio_output p l" dev env] by auto

lemma cycle_scans_no_sleep: "Sleep d \<notin> set (cycle_scans dev env)"
  using cycle_scans_events [of "Sleep d" dev env] by auto

lemma cycle_scans_no_nfc: "Call Nfc_read \<notin> set (cycle_scans dev env)"
  using cycle_scans_events [of "Call Nfc_read" dev env] by auto

lemma cycle_scans_slept: "ev \<in> set (cycle_scans dev env) \<Longrightarrow> slept ev = 0"
  using cycle_scans_events [of ev dev env] by auto

lemma cycle_scans_sleep_total: "sleep_total (cycle_scans dev env) = 0"
  by (simp add: sleep_total_def cycle_scans_slept)

lemma cycle_scans_no_loop_error: "ev \<in> set (cycle_scans dev env) \<Longrightarrow> \<not> is_loop_error ev"
  using cycle_scans_events [of ev dev env] by auto

lemma cycle_scans_filter_loop_error: "filter is_loop_error (cycle_scans dev env) = []"
  by (simp add: filter_empty_conv cycle_scans_no_loop_error)

section \<open>Wi-Fi scan: claims\<close>

lemma sample_lines:
  "filter (is_in ''ESSID'') (split_str newline sample_output) =
     [''    ESSID:'' @ dquote # ''Home'' @ [dquote], ''    ESSID:'' @ dquote # ''Cafe'' @ [dquote]]"
  by (simp add: sample_output_def newline_def dquote_def)

lemma truncated_lines:
  "split_str newline truncated_output =
     [''    ESSID:'' @ dquote # ''Home'' @ [dquote], ''    ESSID:'']"
  by (simp add: truncated_output_def newline_def dquote_def)

text \<open>
  Claim C5. \<^verbatim>\<open>wifi_scan\<close> takes, from each line of the tool's output that contains
  \<^verbatim>\<open>ESSID\<close>, the identifier enclosed in double quotes, in line order. Whenever the tool
  returns \<open>out\<close> and the lines of \<open>out\<close> that contain the marker are, in order, of the form
  \<open>pre "ident" post\<close> for the identifiers \<open>idents\<close> (no double quote in \<open>pre\<close> or in
  \<open>ident\<close>: the identifier is the first quoted text of its line), the scan returns one
  network per such line, with these identifiers, in that order. The witness is the
  example of the claim: lines with \<^verbatim>\<open>ESSID:"Home"\<close> and \<^verbatim>\<open>ESSID:"Cafe"\<close> give the
  networks Home and Cafe.
\<close>

theorem wifi_scan_extracts_quoted:
  assumes "check_output env = Inr out"
    and "list_all2 (\<lambda>line ident. \<exists>pre post. line = pre @ dquote # ident @ dquote # post
                       \<and> dquote \<notin> set pre \<and> dquote \<notin> set ident)
           (filter (is_in ''ESSID'') (split_str newline out)) idents"
  shows "snd (wifi_scan env) = Inr (map (\<lambda>ident. \<lparr>ssid = ident\<rparr>) idents)"
  using assms(1) wifi_scan_lines_quoted [OF assms(2), of "[]"]
  by (simp add: wifi_scan_cases)

theorem wifi_scan_extracts_quoted_witness:
  "check_output sample_env = Inr sample_output
   \<and> list_all2 (\<lambda>line ident. \<exists>pre post. line = pre @ dquote # ident @ dquote # post
                       \<and> dquote \<notin> set pre \<and> dquote \<notin> set ident)
        (filter (is_in ''ESSID'') (split_str newline sample_output)) [''Home'', ''Cafe'']
   \<and> snd (wifi_scan sample_env) = Inr [\<lparr>ssid = ''Home''\<rparr>, \<lparr>ssid = ''Cafe''\<rparr>]"
proof -
  have out: "check_output sample_env = Inr sample_output"
    by (simp add: sample_env_def)
  have home: "\<exists>pre post. ''    ESSID:'' @ dquote # ''Home'' @ [dquote]
                  = pre @ dquote # ''Home'' @ dquote # post
                \<and> dquote \<notin> set pre \<and> dquote \<notin> set ''Home''"
    by (intro exI [of _ "''    ESSID:''"] exI [of _ "[]"]) (simp add: dquote_def)
  have cafe: "\<exists>pre post. ''    ESSID:'' @ dquote # ''Cafe'' @ [dquote]
                  = pre @ dquote # ''Cafe'' @ dquote # post
                \<and> dquote \<notin> set pre \<and> dquote \<notin> set ''Cafe''"
    by (intro exI [of _ "''    ESSID:''"] exI [of _ "[]"]) (simp add: dquote_def)
  have shape: "list_all2 (\<lambda>line ident. \<exists>pre post. line = pre @ dquote # ident @ dquote # post
                       \<and> dquote \<notin> set pre \<and> dquote \<notin> set ident)
        (filter (is_in ''ESSID'') (split_str newline sample_output)) [''Home'', ''Cafe'']"
    unfolding sample_lines using home cafe by simp
  show ?thesis
    using out shape wifi_scan_extracts_quoted [OF out shape] by simp
qed

text \<open>
  Claim C10. If a line of the tool's output contains \<^verbatim>\<open>ESSID\<close> and splits at the double
  quote into fewer than two pieces, the whole scan returns the empty list: the IndexError
  is caught by the handler of \<^verbatim>\<open>wifi_scan\<close>, which logs it and returns \<^verbatim>\<open>[]\<close>, whatever
  earlier lines had given. In the witness the first line carries \<^verbatim>\<open>ESSID:"Home"\<close>, the
  second stops after the marker, and Home is not returned.
\<close>

theorem wifi_scan_no_partial_result:
  assumes "check_output env = Inr out"
    and "line \<in> set (split_str newline out)"
    and "is_in ''ESSID'' line"
    and "length (split_str dquote line) < 2"
  shows "wifi_scan env =
           ([Call Wifi_scan, Check_output [''iwlist'', ''wlan0'', ''scan''],
             Log ERROR ''Erro na varredura WiFi: list index out of range''], Inr [])"
  using assms(1) wifi_scan_lines_unquoted [OF assms(2-4), of "[]"]
  by (simp add: wifi_scan_cases)

theorem wifi_scan_no_partial_result_witness:
  "check_output (sample_env\<lparr>check_output := Inr truncated_output\<rparr>) = Inr truncated_output
   \<and> split_str newline truncated_output =
       [''    ESSID:'' @ dquote # ''Home'' @ [dquote], ''    ESSID:'']
   \<and> ''    ESSID:'' \<in> set (split_str newline truncated_output)
   \<and> is_in ''ESSID'' ''    ESSID:''
   \<and> length (split_str dquote ''    ESSID:'') < 2
   \<and> wifi_scan (sample_env\<lparr>check_output := Inr truncated_output\<rparr>) =
       ([Call Wifi_scan, Check_output [''iwlist'', ''wlan0'', ''scan''],
         Log ERROR ''Erro na varredura WiFi: list index out of range''], Inr [])"
proof -
  have a: "check_output (sample_env\<lparr>check_output := Inr truncated_output\<rparr>)
             = Inr truncated_output"
    by simp
  have b: "''    ESSID:'' \<in> set (split_str newline truncated_output)"
    by (simp add: truncated_lines)
  have c: "is_in ''ESSID'' ''    ESSID:''"
    by simp
  have d: "length (split_str dquote ''    ESSID:'') < 2"
    by (simp add: dquote_def)
  show ?thesis
    using a b c d truncated_lines wifi_scan_no_partial_result [OF a b c d] by simp
qed

text \<open>
  Claim C3. When the body of the \<^verbatim>\<open>try\<close> in \<^verbatim>\<open>wifi_scan\<close> raises \<open>e\<close>, for whatever
  reason (the subprocess call or the parsing), \<^verbatim>\<open>wifi_scan\<close> logs one error with the
  text of \<open>e\<close> and returns the empty list: nothing is raised to the caller. A cycle that
  got as far as the Wi-Fi scan (the LED was switched on) then enters
  \<^verbatim>\<open>advanced_bluetooth_scan\<close> right after the events of the failed scan. The witness
  takes both reasons: the tool is missing, and the output has a marker without quotes.
\<close>

theorem wifi_failure_absorbed:
  assumes "snd (wifi_scan_try env) = Inl e"
  shows "wifi_scan env =
           (Call Wifi_scan # fst (wifi_scan_try env) @
              [Log ERROR (''Erro na varredura WiFi: '' @ exn_str e)], Inr [])
         \<and> (gpio_output_high env = Inr () \<longrightarrow>
              (\<exists>rest. fst (scan_loop_iteration dev env) =
                 Gpio_output LED_PIN HIGH # fst (wifi_scan env) @
                 Call Advanced_bluetooth_scan # rest))"
proof
  obtain t where t: "wifi_scan_try env = (t, Inl e)"
    using assms by (cases "wifi_scan_try env") simp
  show "wifi_scan env =
           (Call Wifi_scan # fst (wifi_scan_try env) @
              [Log ERROR (''Erro na varredura WiFi: '' @ exn_str e)], Inr [])"
    by (simp add: wifi_scan_def wifi_scan_body_def t try_except_def bind_def emit_def ret_def)
  obtain tb where tb: "fst (advanced_bluetooth_scan dev env) = Call Advanced_bluetooth_scan # tb"
    using advanced_bluetooth_scan_returns [of dev env] by auto
  show "gpio_output_high env = Inr () \<longrightarrow>
              (\<exists>rest. fst (scan_loop_iteration dev env) =
                 Gpio_output LED_PIN HIGH # fst (wifi_scan env) @
                 Call Advanced_bluetooth_scan # rest)"
    by (auto simp: scan_loop_iteration_cases cycle_scans_def tb split: sum.splits)
qed

theorem wifi_failure_absorbed_witness:
  "snd (wifi_scan_try (sample_env\<lparr>check_output := Inl iwlist_missing\<rparr>)) = Inl iwlist_missing
   \<and> gpio_output_high (sample_env\<lparr>check_output := Inl iwlist_missing\<rparr>) = Inr ()
   \<and> wifi_scan (sample_env\<lparr>check_output := Inl iwlist_missing\<rparr>) =
       ([Call Wifi_scan, Log ERROR (''Erro na varredura WiFi: '' @ exn_str iwlist_missing)],
        Inr [])
   \<and> (\<exists>rest. fst (scan_loop_iteration sample_device
                    (sample_env\<lparr>check_output := Inl iwlist_missing\<rparr>)) =
         Gpio_output LED_PIN HIGH #
         fst (wifi_scan (sample_env\<lparr>check_output := Inl iwlist_missing\<rparr>)) @
         Call Advanced_bluetooth_scan # rest)
   \<and> snd (wifi_scan_try (sample_env\<lparr>check_output := Inr truncated_output\<rparr>)) =
       Inl (Exception ''IndexError'' ''list index out of range'')
   \<and> snd (wifi_scan (sample_env\<lparr>check_output := Inr truncated_output\<rparr>)) = Inr []"
proof -
  have t: "wifi_scan_try (sample_env\<lparr>check_output := Inl iwlist_missing\<rparr>)
             = ([], Inl iwlist_missing)"
    by (simp add: wifi_scan_try_def extern_def raise_def bind_def)
  have f: "snd (wifi_scan_try (sample_env\<lparr>check_output := Inl iwlist_missing\<rparr>))
             = Inl iwlist_missing"
    by (simp add: t)
  have g: "gpio_output_high (sample_env\<lparr>check_output := Inl iwlist_missing\<rparr>) = Inr ()"
    by (simp add: sample_env_def)
  have p: "snd (wifi_scan_try (sample_env\<lparr>check_output := Inr truncated_output\<rparr>)) =
       Inl (Exception ''IndexError'' ''list index out of range'')"
    by (simp add: wifi_scan_try_def extern_def emit_def ret_def raise_def bind_def index_def
          truncated_lines dquote_def)
  show ?thesis
    using f g p wifi_failure_absorbed [OF f, of sample_device]
      wifi_failure_absorbed [OF p, of sample_device]
    by (auto simp: t)
qed

section \<open>Bluetooth scan: claims\<close>

text \<open>
  Claim C4. When discovery returns the pairs \<open>nearby\<close>, \<^verbatim>\<open>advanced_bluetooth_scan\<close>
  returns one dictionary per pair, in the same order, none dropped, and does not raise.
  Each carries the address and name of its pair; its services are what the lookup for its
  address returned, and the empty list where that lookup raised. The witness is the
  example of the specification: one phone at AA:BB whose lookup throws comes back with
  \<^verbatim>\<open>services: []\<close>.
\<close>

theorem service_lookup_failure_keeps_device:
  assumes "bluetooth_scanner dev = Some scanner"
    and "bt_discover_devices env = Inr nearby"
  shows "snd (advanced_bluetooth_scan dev env) =
           Inr (map (\<lambda>(addr, nm).
                  \<lparr>address = addr, name = nm,
                   services = Some (case bt_find_service env addr of
                                      Inl _ \<Rightarrow> [] | Inr found \<Rightarrow> found)\<rparr>) nearby)"
  using assms
  by (simp add: advanced_bluetooth_scan_cases with_services_def comp_def case_prod_unfold)

theorem service_lookup_failure_keeps_device_witness:
  "bluetooth_scanner sample_device = Some BluetoothScanner
   \<and> bt_discover_devices sample_env = Inr [(''AA:BB'', ''Phone'')]
   \<and> bt_find_service sample_env ''AA:BB'' = Inl (Exception ''BluetoothError'' ''Host is down'')
   \<and> snd (advanced_bluetooth_scan sample_device sample_env) =
       Inr [\<lparr>address = ''AA:BB'', name = ''Phone'', services = Some []\<rparr>]"
proof -
  have a: "bluetooth_scanner sample_device = Some BluetoothScanner"
    by (simp add: sample_device_def)
  have b: "bt_discover_devices sample_env = Inr [(''AA:BB'', ''Phone'')]"
    by (simp add: sample_env_def)
  have c: "bt_find_service sample_env ''AA:BB''
             = Inl (Exception ''BluetoothError'' ''Host is down'')"
    by (simp add: sample_env_def)
  show ?thesis
    using a b c service_lookup_failure_keeps_device [OF a b] by simp
qed

text \<open>
  Claim C9. When \<^verbatim>\<open>bluetooth.discover_devices\<close> raises \<open>e\<close>, \<^verbatim>\<open>discover\<close> prints the
  error and returns the empty list, and so does \<^verbatim>\<open>advanced_bluetooth_scan\<close>; when the
  scanner attribute is \<^verbatim>\<open>None\<close>, \<^verbatim>\<open>advanced_bluetooth_scan\<close> returns the empty list at
  once. Neither case raises.
\<close>

theorem discovery_failure_yields_empty:
  "(bt_discover_devices env = Inl e \<longrightarrow>
      discover scanner env d = ([Print (''Erro na varredura Bluetooth: '' @ exn_str e)], Inr [])
      \<and> snd (advanced_bluetooth_scan dev env) = Inr [])
   \<and> (bluetooth_scanner dev = None \<longrightarrow>
        advanced_bluetooth_scan dev env = ([Call Advanced_bluetooth_scan], Inr []))"
  by (simp add: discover_cases advanced_bluetooth_scan_cases split: option.splits)

theorem discovery_failure_yields_empty_witness:
  "bt_discover_devices (sample_env\<lparr>bt_discover_devices := Inl no_adapter\<rparr>) = Inl no_adapter
   \<and> discover BluetoothScanner (sample_env\<lparr>bt_discover_devices := Inl no_adapter\<rparr>) 8
       = ([Print ''Erro na varredura Bluetooth: No such device''], Inr [])
   \<and> snd (advanced_bluetooth_scan sample_device
            (sample_env\<lparr>bt_discover_devices := Inl no_adapter\<rparr>)) = Inr []
   \<and> bluetooth_scanner (sample_device\<lparr>bluetooth_scanner := None\<rparr>) = None
   \<and> advanced_bluetooth_scan (sample_device\<lparr>bluetooth_scanner := None\<rparr>) sample_env
       = ([Call Advanced_bluetooth_scan], Inr [])"
  using discovery_failure_yields_empty
      [of "sample_env\<lparr>bt_discover_devices := Inl no_adapter\<rparr>" no_adapter
          BluetoothScanner 8 sample_device]
    discovery_failure_yields_empty
      [of sample_env no_adapter BluetoothScanner 8 "sample_device\<lparr>bluetooth_scanner := None\<rparr>"]
  by (simp add: no_adapter_def)

section \<open>The cycle: further facts\<close>

lemma sleep_total_simps:
  "sleep_total [] = 0"
  "sleep_total (ev # t) = slept ev + sleep_total t"
  "sleep_total (t @ t') = sleep_total t + sleep_total t'"
  by (simp_all add: sleep_total_def)

lemma scan_loop_try_outcome:
  "snd (scan_loop_try dev env) = Inr () \<longleftrightarrow>
     gpio_output_high env = Inr () \<and> gpio_output_low env = Inr ()"
  by (simp add: scan_loop_try_cases split: sum.splits)

lemma scan_loop_iteration_handler:
  "snd (scan_loop_try dev env) = Inl e \<Longrightarrow>
   scan_loop_iteration dev env =
     (fst (scan_loop_try dev env) @
        [Log ERROR (''Erro no loop de varredura: '' @ exn_str e), Sleep 5], Inr ())"
  by (cases "scan_loop_try dev env")
    (simp add: scan_loop_iteration_def try_except_def bind_def emit_def)

lemma scan_loop_iteration_not_Nil: "fst (scan_loop_iteration dev env) \<noteq> []"
  by (simp add: scan_loop_iteration_cases split: sum.splits)

lemma cycle_scans_calls:
  "\<exists>t1 t2 t3. cycle_scans dev env =
     Call Wifi_scan # t1 @ Call Advanced_bluetooth_scan # t2 @ Call Update_display # t3"
proof -
  obtain tw nets where w: "wifi_scan env = (Call Wifi_scan # tw, Inr nets)"
    using wifi_scan_returns [of env] by blast
  obtain tb devs where b: "advanced_bluetooth_scan dev env = (Call Advanced_bluetooth_scan # tb, Inr devs)"
    using advanced_bluetooth_scan_returns [of dev env] by blast
  obtain td where d: "update_display dev env nets devs = (Call Update_display # td, Inr ())"
    using update_display_returns [of dev env nets devs] by blast
  have "cycle_scans dev env =
     Call Wifi_scan # tw @ Call Advanced_bluetooth_scan #
       (tb @ [Log INFO (''WiFi: '' @ str_nat (length nets) @ '' redes''),
              Log INFO (''Bluetooth: '' @ str_nat (length devs) @ '' dispositivos'')]) @
       Call Update_display # td"
    by (simp add: cycle_scans_def returned_def w b d)
  then show ?thesis by blast
qed

lemma scan_loop_iteration_no_nfc: "Call Nfc_read \<notin> set (fst (scan_loop_iteration dev env))"
  by (simp add: scan_loop_iteration_cases cycle_scans_no_nfc split: sum.splits)

lemma scan_loop_no_nfc: "Call Nfc_read \<notin> set (fst (scan_loop n dev envs))"
proof (induction n)
  case 0
  show ?case by simp
next
  case (Suc n)
  then show ?case
    unfolding scan_loop_Suc by (simp add: scan_loop_iteration_no_nfc)
qed

lemma scan_loop_iteration_sleep:
  "sleep_total (fst (scan_loop_iteration dev env)) =
     (case gpio_output_high env of
        Inl _ \<Rightarrow> 5
      | Inr _ \<Rightarrow> (case gpio_output_low env of Inl _ \<Rightarrow> 10 + 5 | Inr _ \<Rightarrow> 10 + 2))"
  by (simp add: scan_loop_iteration_cases sleep_total_simps cycle_scans_sleep_total
        split: sum.splits)

lemma sample_cycle:
  "scan_loop_iteration sample_device sample_env =
     ([Gpio_output 18 HIGH, Call Wifi_scan, Check_output [''iwlist'', ''wlan0'', ''scan''],
       Call Advanced_bluetooth_scan, Discover_devices 8,
       Log INFO ''WiFi: 2 redes'', Log INFO ''Bluetooth: 1 dispositivos'',
       Call Update_display, Display_fill 0, Display_text ''WiFi: 2'' 0 0 1,
       Display_text ''BT: 1'' 0 10 1, Display_show, Sleep 10, Gpio_output 18 LOW, Sleep 2],
      Inr ())"
  by code_simp

lemma sample_cycle_led_on_fails:
  "scan_loop_iteration sample_device (sample_env\<lparr>gpio_output_high := Inl gpio_error\<rparr>) =
     ([Log ERROR ''Erro no loop de varredura: The GPIO channel has not been set up as an OUTPUT'',
       Sleep 5], Inr ())"
  by code_simp

lemma sample_cycle_led_off_fails:
  "scan_loop_iteration sample_device (sample_env\<lparr>gpio_output_low := Inl gpio_error\<rparr>) =
     ([Gpio_output 18 HIGH, Call Wifi_scan, Check_output [''iwlist'', ''wlan0'', ''scan''],
       Call Advanced_bluetooth_scan, Discover_devices 8,
       Log INFO ''WiFi: 2 redes'', Log INFO ''Bluetooth: 1 dispositivos'',
       Call Update_display, Display_fill 0, Display_text ''WiFi: 2'' 0 0 1,
       Display_text ''BT: 1'' 0 10 1, Display_show, Sleep 10,
       Log ERROR ''Erro no loop de varredura: The GPIO channel has not been set up as an OUTPUT'',
       Sleep 5], Inr ())"
  by code_simp

section \<open>The scan loop: claims\<close>

text \<open>
  Claim C1, as amended. In a cycle whose \<^verbatim>\<open>try\<close> body runs to its end, whatever the
  scans and the display update met, the LED is switched on exactly once, as the first
  thing of the cycle and so before both scan calls, and switched off exactly once, right
  after the dwell of 10 and before the cooldown of 2; nothing in between touches the pin or
  sleeps. In a cycle in which an exception reaches the loop's handler the LED is switched
  on at most once and is not switched off: the handler only logs and sleeps.
\<close>

theorem indicator_once_per_cycle:
  "(snd (scan_loop_try dev env) = Inr () \<longrightarrow>
      (\<exists>scans. fst (scan_loop_iteration dev env) =
                  Gpio_output LED_PIN HIGH # scans @ [Sleep 10, Gpio_output LED_PIN LOW, Sleep 2]
               \<and> Call Wifi_scan \<in> set scans \<and> Call Advanced_bluetooth_scan \<in> set scans
               \<and> (\<forall>p l. Gpio_output p l \<notin> set scans) \<and> (\<forall>d. Sleep d \<notin> set scans))
      \<and> count_list (fst (scan_loop_iteration dev env)) (Gpio_output LED_PIN HIGH) = 1
      \<and> count_list (fst (scan_loop_iteration dev env)) (Gpio_output LED_PIN LOW) = 1)
   \<and> (\<forall>e. snd (scan_loop_try dev env) = Inl e \<longrightarrow>
        count_list (fst (scan_loop_iteration dev env)) (Gpio_output LED_PIN HIGH) \<le> 1
        \<and> count_list (fst (scan_loop_iteration dev env)) (Gpio_output LED_PIN LOW) = 0)"
proof (intro conjI impI allI)
  assume ok: "snd (scan_loop_try dev env) = Inr ()"
  then have it: "fst (scan_loop_iteration dev env) =
      Gpio_output LED_PIN HIGH # cycle_scans dev env @ [Sleep 10, Gpio_output LED_PIN LOW, Sleep 2]"
    by (simp add: scan_loop_try_outcome scan_loop_iteration_cases)
  obtain t1 t2 t3 where c: "cycle_scans dev env =
     Call Wifi_scan # t1 @ Call Advanced_bluetooth_scan # t2 @ Call Update_display # t3"
    using cycle_scans_calls by blast
  have "Call Wifi_scan \<in> set (cycle_scans dev env)"
    "Call Advanced_bluetooth_scan \<in> set (cycle_scans dev env)"
    by (simp_all add: c)
  then show "\<exists>scans. fst (scan_loop_iteration dev env) =
                  Gpio_output LED_PIN HIGH # scans @ [Sleep 10, Gpio_output LED_PIN LOW, Sleep 2]
               \<and> Call Wifi_scan \<in> set scans \<and> Call Advanced_bluetooth_scan \<in> set scans
               \<and> (\<forall>p l. Gpio_output p l \<notin> set scans) \<and> (\<forall>d. Sleep d \<notin> set scans)"
    using it cycle_scans_no_gpio [of _ _ dev env] cycle_scans_no_sleep [of _ dev env]
    by (intro exI [of _ "cycle_scans dev env"]) simp
  show "count_list (fst (scan_loop_iteration dev env)) (Gpio_output LED_PIN HIGH) = 1"
    by (simp add: it cycle_scans_no_gpio)
  show "count_list (fst (scan_loop_iteration dev env)) (Gpio_output LED_PIN LOW) = 1"
    by (simp add: it cycle_scans_no_gpio)
next
  fix e
  assume "snd (scan_loop_try dev env) = Inl e"
  then have "fst (scan_loop_iteration dev env) =
               [Log ERROR (''Erro no loop de varredura: '' @ exn_str e), Sleep 5]
           \<or> fst (scan_loop_iteration dev env) =
               Gpio_output LED_PIN HIGH # cycle_scans dev env @
               [Sleep 10, Log ERROR (''Erro no loop de varredura: '' @ exn_str e), Sleep 5]"
    by (auto simp: scan_loop_try_cases scan_loop_iteration_cases split: sum.splits)
  then show "count_list (fst (scan_loop_iteration dev env)) (Gpio_output LED_PIN HIGH) \<le> 1"
    and "count_list (fst (scan_loop_iteration dev env)) (Gpio_output LED_PIN LOW) = 0"
    by (auto simp: cycle_scans_no_gpio)
qed

theorem indicator_once_per_cycle_witness:
  "snd (scan_loop_try sample_device sample_env) = Inr ()
   \<and> count_list (fst (scan_loop_iteration sample_device sample_env))
        (Gpio_output LED_PIN HIGH) = 1
   \<and> count_list (fst (scan_loop_iteration sample_device sample_env))
        (Gpio_output LED_PIN LOW) = 1
   \<and> snd (scan_loop_try sample_device (sample_env\<lparr>gpio_output_low := Inl gpio_error\<rparr>))
       = Inl gpio_error
   \<and> count_list
        (fst (scan_loop_iteration sample_device (sample_env\<lparr>gpio_output_low := Inl gpio_error\<rparr>)))
        (Gpio_output LED_PIN LOW) = 0"
proof -
  have a: "snd (scan_loop_try sample_device sample_env) = Inr ()"
    by (simp add: scan_loop_try_outcome sample_env_def)
  have b: "snd (scan_loop_try sample_device (sample_env\<lparr>gpio_output_low := Inl gpio_error\<rparr>))
       = Inl gpio_error"
    by (simp add: scan_loop_try_cases sample_env_def)
  show ?thesis
    using a b indicator_once_per_cycle [of sample_device sample_env]
      indicator_once_per_cycle [of sample_device "sample_env\<lparr>gpio_output_low := Inl gpio_error\<rparr>"]
    by simp
qed

text \<open>
  The claim as first stated also covers the cycles in which an error escapes. In the cycle
  below switching the LED on raises: the handler logs, sleeps 5, and the pin is never
  set to idle.
\<close>

theorem indicator_counterexample:
  "snd (scan_loop_try sample_device (sample_env\<lparr>gpio_output_high := Inl gpio_error\<rparr>))
     = Inl gpio_error
   \<and> fst (scan_loop_iteration sample_device (sample_env\<lparr>gpio_output_high := Inl gpio_error\<rparr>))
       = [Log ERROR ''Erro no loop de varredura: The GPIO channel has not been set up as an OUTPUT'',
          Sleep 5]
   \<and> count_list
        (fst (scan_loop_iteration sample_device (sample_env\<lparr>gpio_output_high := Inl gpio_error\<rparr>)))
        (Gpio_output LED_PIN LOW) \<noteq> 1"
  by (simp add: sample_cycle_led_on_fails scan_loop_try_cases)

text \<open>
  Claim C2, as amended. The scan loop never calls \<^verbatim>\<open>NFCReader.read\<close>: the reader is
  created at setup and not used again. Every cycle in which switching the LED on does not
  raise enters \<^verbatim>\<open>wifi_scan\<close> and then \<^verbatim>\<open>advanced_bluetooth_scan\<close>.
\<close>

theorem cycle_polls_wifi_and_bluetooth:
  "Call Nfc_read \<notin> set (fst (scan_loop n dev envs))
   \<and> (gpio_output_high env = Inr () \<longrightarrow>
        (\<exists>t1 t2 t3. fst (scan_loop_iteration dev env) =
           t1 @ Call Wifi_scan # t2 @ Call Advanced_bluetooth_scan # t3))"
proof (intro conjI impI)
  show "Call Nfc_read \<notin> set (fst (scan_loop n dev envs))"
    by (rule scan_loop_no_nfc)
  assume high: "gpio_output_high env = Inr ()"
  obtain t1 t2 t3 where c: "cycle_scans dev env =
     Call Wifi_scan # t1 @ Call Advanced_bluetooth_scan # t2 @ Call Update_display # t3"
    using cycle_scans_calls by blast
  obtain rest where "fst (scan_loop_iteration dev env) =
      [Gpio_output LED_PIN HIGH] @ cycle_scans dev env @ rest"
    using high by (cases "gpio_output_low env") (simp_all add: scan_loop_iteration_cases)
  then have "fst (scan_loop_iteration dev env) =
      [Gpio_output LED_PIN HIGH] @ Call Wifi_scan # t1 @ Call Advanced_bluetooth_scan #
        (t2 @ Call Update_display # t3 @ rest)"
    by (simp add: c)
  then show "\<exists>t1 t2 t3. fst (scan_loop_iteration dev env) =
           t1 @ Call Wifi_scan # t2 @ Call Advanced_bluetooth_scan # t3"
    by blast
qed

theorem cycle_polls_wifi_and_bluetooth_witness:
  "gpio_output_high sample_env = Inr ()
   \<and> Call Nfc_read \<notin> set (fst (scan_loop 3 sample_device (\<lambda>_. sample_env)))
   \<and> (\<exists>t1 t2 t3. fst (scan_loop_iteration sample_device sample_env) =
           t1 @ Call Wifi_scan # t2 @ Call Advanced_bluetooth_scan # t3)"
proof -
  have a: "gpio_output_high sample_env = Inr ()"
    by (simp add: sample_env_def)
  show ?thesis
    using a cycle_polls_wifi_and_bluetooth [of 3 sample_device "\<lambda>_. sample_env" sample_env]
    by simp
qed

text \<open>
  A cycle in which every collaborator answers: Wi-Fi and Bluetooth are polled, the NFC
  reader is not.
\<close>

theorem nfc_not_polled_counterexample:
  "fst (scan_loop_iteration sample_device sample_env) =
     [Gpio_output 18 HIGH, Call Wifi_scan, Check_output [''iwlist'', ''wlan0'', ''scan''],
      Call Advanced_bluetooth_scan, Discover_devices 8,
      Log INFO ''WiFi: 2 redes'', Log INFO ''Bluetooth: 1 dispositivos'',
      Call Update_display, Display_fill 0, Display_text ''WiFi: 2'' 0 0 1,
      Display_text ''BT: 1'' 0 10 1, Display_show, Sleep 10, Gpio_output 18 LOW, Sleep 2]
   \<and> Call Nfc_read \<notin> set (fst (scan_loop_iteration sample_device sample_env))"
  by (simp add: sample_cycle)

text \<open>
  Claim C6. When the \<^verbatim>\<open>try\<close> body of cycle \<open>n\<close> ends with exception \<open>e\<close>, the
  iteration is the events of the body so far, then one error entry of the loop's handler
  with the text of \<open>e\<close>, then a sleep of 5, and it returns normally. That entry is the only
  one of the loop's handler in the cycle (\<^verbatim>\<open>wifi_scan\<close> and \<^verbatim>\<open>update_display\<close> log the
  failures they absorb under their own messages). The loop is still running after the
  cycle, and the next cycle follows the sleep and is not empty.
\<close>

theorem scan_loop_backoff:
  assumes "snd (scan_loop_try dev (envs n)) = Inl e"
  shows "scan_loop_iteration dev (envs n) =
           (fst (scan_loop_try dev (envs n)) @
              [Log ERROR (''Erro no loop de varredura: '' @ exn_str e), Sleep 5], Inr ())
         \<and> length (filter is_loop_error (fst (scan_loop_iteration dev (envs n)))) = 1
         \<and> scan_loop (Suc n) dev envs =
             (fst (scan_loop n dev envs) @ fst (scan_loop_try dev (envs n)) @
                [Log ERROR (''Erro no loop de varredura: '' @ exn_str e), Sleep 5], None)
         \<and> scan_loop (Suc (Suc n)) dev envs =
             (fst (scan_loop (Suc n) dev envs) @ fst (scan_loop_iteration dev (envs (Suc n))),
              None)
         \<and> fst (scan_loop_iteration dev (envs (Suc n))) \<noteq> []"
proof -
  have it: "scan_loop_iteration dev (envs n) =
           (fst (scan_loop_try dev (envs n)) @
              [Log ERROR (''Erro no loop de varredura: '' @ exn_str e), Sleep 5], Inr ())"
    using assms by (rule scan_loop_iteration_handler)
  have "fst (scan_loop_try dev (envs n)) = []
      \<or> fst (scan_loop_try dev (envs n)) =
          Gpio_output LED_PIN HIGH # cycle_scans dev (envs n) @ [Sleep 10]"
    using assms by (auto simp: scan_loop_try_cases split: sum.splits)
  then have "filter is_loop_error (fst (scan_loop_try dev (envs n))) = []"
    by (auto simp: cycle_scans_filter_loop_error)
  then have one: "length (filter is_loop_error (fst (scan_loop_iteration dev (envs n)))) = 1"
    by (simp add: it)
  have next_cycle: "scan_loop (Suc (Suc n)) dev envs =
             (fst (scan_loop (Suc n) dev envs) @ fst (scan_loop_iteration dev (envs (Suc n))),
              None)"
    by (rule scan_loop_Suc)
  have this_cycle: "scan_loop (Suc n) dev envs =
             (fst (scan_loop n dev envs) @ fst (scan_loop_try dev (envs n)) @
                [Log ERROR (''Erro no loop de varredura: '' @ exn_str e), Sleep 5], None)"
    unfolding scan_loop_Suc [of n] by (simp add: it)
  show ?thesis
    using it one this_cycle next_cycle scan_loop_iteration_not_Nil [of dev "envs (Suc n)"]
    by blast
qed

theorem scan_loop_backoff_witness:
  "snd (scan_loop_try sample_device (gpio_fault_at 1 1)) = Inl gpio_error
   \<and> scan_loop_iteration sample_device (gpio_fault_at 1 1) =
       ([Log ERROR ''Erro no loop de varredura: The GPIO channel has not been set up as an OUTPUT'',
         Sleep 5], Inr ())
   \<and> length (filter is_loop_error
        (fst (scan_loop_iteration sample_device (gpio_fault_at 1 1)))) = 1
   \<and> scan_loop (Suc (Suc 1)) sample_device (gpio_fault_at 1) =
       (fst (scan_loop (Suc 1) sample_device (gpio_fault_at 1)) @
        fst (scan_loop_iteration sample_device (gpio_fault_at 1 (Suc 1))), None)
   \<and> fst (scan_loop_iteration sample_device (gpio_fault_at 1 (Suc 1))) \<noteq> []"
proof -
  have a: "snd (scan_loop_try sample_device (gpio_fault_at 1 1)) = Inl gpio_error"
    by (simp add: gpio_fault_at_def scan_loop_try_cases)
  have t: "fst (scan_loop_try sample_device (gpio_fault_at 1 1)) = []"
    by (simp add: gpio_fault_at_def scan_loop_try_cases)
  show ?thesis
    using a t scan_loop_backoff [of sample_device "gpio_fault_at 1" 1 gpio_error, OF a]
    by (simp del: scan_loop.simps add: gpio_error_def)
qed

text \<open>
  Claim C7. A cycle whose \<^verbatim>\<open>try\<close> body runs to its end consists of, in this order:
  LED on, the Wi-Fi scan, the Bluetooth scan, the two count lines of the log, the display
  update, a sleep of 10, LED off, a sleep of 2. It sleeps 10 + 2 in all. For every cycle
  \<open>n\<close> of a run, the time slept up to the start of cycle \<open>n + 1\<close> exceeds that up to the
  start of cycle \<open>n\<close> by at least 10 + 2 when cycle \<open>n\<close> had no error, and by at least the
  backoff of 5 otherwise.
\<close>

theorem cycle_order:
  assumes "snd (scan_loop_try dev env) = Inr ()"
  shows "fst (scan_loop_iteration dev env) =
           Gpio_output LED_PIN HIGH #
           fst (wifi_scan env) @
           fst (advanced_bluetooth_scan dev env) @
           [Log INFO (''WiFi: '' @ str_nat (length (returned (wifi_scan env))) @ '' redes''),
            Log INFO (''Bluetooth: '' @
                        str_nat (length (returned (advanced_bluetooth_scan dev env))) @
                        '' dispositivos'')] @
           fst (update_display dev env (returned (wifi_scan env))
                  (returned (advanced_bluetooth_scan dev env))) @
           [Sleep 10, Gpio_output LED_PIN LOW, Sleep 2]
         \<and> (\<exists>t. fst (wifi_scan env) = Call Wifi_scan # t)
         \<and> (\<exists>t. fst (advanced_bluetooth_scan dev env) = Call Advanced_bluetooth_scan # t)
         \<and> (\<exists>t. fst (update_display dev env (returned (wifi_scan env))
                       (returned (advanced_bluetooth_scan dev env))) = Call Update_display # t)
         \<and> sleep_total (fst (scan_loop_iteration dev env)) = 10 + 2
         \<and> sleep_total (fst (scan_loop n dev envs)) +
             (if snd (scan_loop_try dev (envs n)) = Inr () then 10 + 2 else 5)
             \<le> sleep_total (fst (scan_loop (Suc n) dev envs))"
proof (intro conjI)
  have ok: "gpio_output_high env = Inr ()" "gpio_output_low env = Inr ()"
    using assms by (simp_all add: scan_loop_try_outcome)
  show "fst (scan_loop_iteration dev env) =
           Gpio_output LED_PIN HIGH #
           fst (wifi_scan env) @
           fst (advanced_bluetooth_scan dev env) @
           [Log INFO (''WiFi: '' @ str_nat (length (returned (wifi_scan env))) @ '' redes''),
            Log INFO (''Bluetooth: '' @
                        str_nat (length (returned (advanced_bluetooth_scan dev env))) @
                        '' dispositivos'')] @
           fst (update_display dev env (returned (wifi_scan env))
                  (returned (advanced_bluetooth_scan dev env))) @
           [Sleep 10, Gpio_output LED_PIN LOW, Sleep 2]"
    by (simp add: scan_loop_iteration_cases ok cycle_scans_def)
  show "\<exists>t. fst (wifi_scan env) = Call Wifi_scan # t"
    using wifi_scan_returns [of env] by auto
  show "\<exists>t. fst (advanced_bluetooth_scan dev env) = Call Advanced_bluetooth_scan # t"
    using advanced_bluetooth_scan_returns [of dev env] by auto
  show "\<exists>t. fst (update_display dev env (returned (wifi_scan env))
                       (returned (advanced_bluetooth_scan dev env))) = Call Update_display # t"
    using update_display_returns
      [of dev env "returned (wifi_scan env)" "returned (advanced_bluetooth_scan dev env)"]
    by auto
  show "sleep_total (fst (scan_loop_iteration dev env)) = 10 + 2"
    by (simp add: scan_loop_iteration_sleep ok)
  show "sleep_total (fst (scan_loop n dev envs)) +
             (if snd (scan_loop_try dev (envs n)) = Inr () then 10 + 2 else 5)
             \<le> sleep_total (fst (scan_loop (Suc n) dev envs))"
    unfolding scan_loop_Suc
    by (simp add: sleep_total_simps scan_loop_iteration_sleep scan_loop_try_outcome
          split: sum.splits)
qed

theorem cycle_order_witness:
  "snd (scan_loop_try sample_device sample_env) = Inr ()
   \<and> fst (scan_loop_iteration sample_device sample_env) =
       [Gpio_output 18 HIGH, Call Wifi_scan, Check_output [''iwlist'', ''wlan0'', ''scan''],
        Call Advanced_bluetooth_scan, Discover_devices 8,
        Log INFO ''WiFi: 2 redes'', Log INFO ''Bluetooth: 1 dispositivos'',
        Call Update_display, Display_fill 0, Display_text ''WiFi: 2'' 0 0 1,
        Display_text ''BT: 1'' 0 10 1, Display_show, Sleep 10, Gpio_output 18 LOW, Sleep 2]
   \<and> sleep_total (fst (scan_loop_iteration sample_device sample_env)) = 10 + 2
   \<and> sleep_total (fst (scan_loop 1 sample_device (gpio_fault_at 1))) + 5
       \<le> sleep_total (fst (scan_loop (Suc 1) sample_device (gpio_fault_at 1)))"
proof -
  have a: "snd (scan_loop_try sample_device sample_env) = Inr ()"
    by (simp add: scan_loop_try_outcome sample_env_def)
  have b: "snd (scan_loop_try sample_device (gpio_fault_at 1 1)) \<noteq> Inr ()"
    by (simp add: gpio_fault_at_def scan_loop_try_cases)
  have tr: "fst (scan_loop_iteration sample_device sample_env) =
       [Gpio_output 18 HIGH, Call Wifi_scan, Check_output [''iwlist'', ''wlan0'', ''scan''],
        Call Advanced_bluetooth_scan, Discover_devices 8,
        Log INFO ''WiFi: 2 redes'', Log INFO ''Bluetooth: 1 dispositivos'',
        Call Update_display, Display_fill 0, Display_text ''WiFi: 2'' 0 0 1,
        Display_text ''BT: 1'' 0 10 1, Display_show, Sleep 10, Gpio_output 18 LOW, Sleep 2]"
    by (simp add: sample_cycle)
  note order = cycle_order [OF a, of 1 "gpio_fault_at 1"]
  from order have s: "sleep_total (fst (scan_loop_iteration sample_device sample_env)) = 10 + 2"
    by (elim conjE)
  from order have "sleep_total (fst (scan_loop 1 sample_device (gpio_fault_at 1))) +
      (if snd (scan_loop_try sample_device (gpio_fault_at 1 1)) = Inr () then 10 + 2 else 5)
      \<le> sleep_total (fst (scan_loop (Suc 1) sample_device (gpio_fault_at 1)))"
    by (elim conjE)
  with b have g: "sleep_total (fst (scan_loop 1 sample_device (gpio_fault_at 1))) + 5
       \<le> sleep_total (fst (scan_loop (Suc 1) sample_device (gpio_fault_at 1)))"
    by (simp only: if_False)
  show ?thesis
    using a tr s g by (intro conjI)
qed

text \<open>
  Claim C8. \<^verbatim>\<open>update_display\<close> returns normally on every input. Without a display
  attribute it does nothing; when a driver call raises \<open>e\<close> it logs one error with the
  text of \<open>e\<close>. The attribute is absent after a setup in which the I2C bus or the driver
  object could not be created. After the display update the cycle goes on with the dwell,
  LED off and the cooldown (provided the GPIO calls themselves do not raise), and the
  next cycle runs and starts by switching the LED on.
\<close>

theorem display_failure_absorbed:
  "snd (update_display dev env wifi_nets bt_devices) = Inr ()
   \<and> (\<not> has_display dev \<longrightarrow>
        update_display dev env wifi_nets bt_devices = ([Call Update_display], Inr ()))
   \<and> (snd (update_display_try dev env wifi_nets bt_devices) = Inl e \<longrightarrow>
        update_display dev env wifi_nets bt_devices =
          (Call Update_display # fst (update_display_try dev env wifi_nets bt_devices) @
             [Log ERROR (''Erro ao atualizar display: '' @ exn_str e)], Inr ()))
   \<and> (board_I2C s = Inl e' \<or> SSD1306_I2C s = Inl e' \<longrightarrow>
        snd (setup_modules s) =
          Inr \<lparr>has_display = False, nfc_reader = Some NFCReader,
               bluetooth_scanner = Some BluetoothScanner\<rparr>)
   \<and> (gpio_output_high env = Inr () \<and> gpio_output_low env = Inr () \<longrightarrow>
        (\<exists>before. fst (scan_loop_iteration dev env) =
           before @
           fst (update_display dev env (returned (wifi_scan env))
                  (returned (advanced_bluetooth_scan dev env))) @
           [Sleep 10, Gpio_output LED_PIN LOW, Sleep 2]))
   \<and> scan_loop (Suc (Suc n)) dev envs =
       (fst (scan_loop n dev envs) @ fst (scan_loop_iteration dev (envs n)) @
        fst (scan_loop_iteration dev (envs (Suc n))), None)
   \<and> (gpio_output_high (envs (Suc n)) = Inr () \<longrightarrow>
        (\<exists>rest. fst (scan_loop_iteration dev (envs (Suc n))) =
                  Gpio_output LED_PIN HIGH # rest))"
proof (intro conjI impI)
  show "snd (update_display dev env wifi_nets bt_devices) = Inr ()"
    using update_display_returns [of dev env wifi_nets bt_devices] by auto
  show "update_display dev env wifi_nets bt_devices = ([Call Update_display], Inr ())"
    if "\<not> has_display dev"
    using that
    by (simp add: update_display_def update_display_body_def update_display_try_def
          try_except_def bind_def emit_def ret_def)
  show "update_display dev env wifi_nets bt_devices =
          (Call Update_display # fst (update_display_try dev env wifi_nets bt_devices) @
             [Log ERROR (''Erro ao atualizar display: '' @ exn_str e)], Inr ())"
    if "snd (update_display_try dev env wifi_nets bt_devices) = Inl e"
    using that
    by (cases "update_display_try dev env wifi_nets bt_devices")
      (simp add: update_display_def update_display_body_def try_except_def bind_def emit_def)
  show "snd (setup_modules s) =
          Inr \<lparr>has_display = False, nfc_reader = Some NFCReader,
               bluetooth_scanner = Some BluetoothScanner\<rparr>"
    if "board_I2C s = Inl e' \<or> SSD1306_I2C s = Inl e'"
    using that
    by (auto simp: setup_modules_def setup_display_def display_warning_def initialize_nfc_def
          initialize_bluetooth_def bind_def emit_def ret_def split: sum.splits)
  show "\<exists>before. fst (scan_loop_iteration dev env) =
           before @
           fst (update_display dev env (returned (wifi_scan env))
                  (returned (advanced_bluetooth_scan dev env))) @
           [Sleep 10, Gpio_output LED_PIN LOW, Sleep 2]"
    if "gpio_output_high env = Inr () \<and> gpio_output_low env = Inr ()"
  proof -
    have "fst (scan_loop_iteration dev env) =
           (Gpio_output LED_PIN HIGH # fst (wifi_scan env) @
            fst (advanced_bluetooth_scan dev env) @
            [Log INFO (''WiFi: '' @ str_nat (length (returned (wifi_scan env))) @ '' redes''),
             Log INFO (''Bluetooth: '' @
                        str_nat (length (returned (advanced_bluetooth_scan dev env))) @
                        '' dispositivos'')]) @
           fst (update_display dev env (returned (wifi_scan env))
                  (returned (advanced_bluetooth_scan dev env))) @
           [Sleep 10, Gpio_output LED_PIN LOW, Sleep 2]"
      using that by (simp add: scan_loop_iteration_cases cycle_scans_def)
    then show ?thesis by blast
  qed
  show "scan_loop (Suc (Suc n)) dev envs =
       (fst (scan_loop n dev envs) @ fst (scan_loop_iteration dev (envs n)) @
        fst (scan_loop_iteration dev (envs (Suc n))), None)"
    unfolding scan_loop_Suc by simp
  show "\<exists>rest. fst (scan_loop_iteration dev (envs (Suc n))) = Gpio_output LED_PIN HIGH # rest"
    if "gpio_output_high (envs (Suc n)) = Inr ()"
    using that by (cases "gpio_output_low (envs (Suc n))") (simp_all add: scan_loop_iteration_cases)
qed

theorem display_failure_absorbed_witness:
  "\<not> has_display (sample_device\<lparr>has_display := False\<rparr>)
   \<and> update_display (sample_device\<lparr>has_display := False\<rparr>) sample_env [] []
       = ([Call Update_display], Inr ())
   \<and> snd (update_display_try sample_device font_missing_env [] []) = Inl font_missing
   \<and> update_display sample_device font_missing_env [] [] =
       ([Call Update_display, Display_fill 0,
         Log ERROR (''Erro ao atualizar display: '' @ exn_str font_missing)], Inr ())
   \<and> board_I2C no_bus_setup = Inl no_i2c
   \<and> snd (setup_modules no_bus_setup) =
       Inr \<lparr>has_display = False, nfc_reader = Some NFCReader,
            bluetooth_scanner = Some BluetoothScanner\<rparr>
   \<and> gpio_output_high font_missing_env = Inr () \<and> gpio_output_low font_missing_env = Inr ()
   \<and> (\<exists>before. fst (scan_loop_iteration sample_device font_missing_env) =
         before @
         fst (update_display sample_device font_missing_env
                (returned (wifi_scan font_missing_env))
                (returned (advanced_bluetooth_scan sample_device font_missing_env))) @
         [Sleep 10, Gpio_output LED_PIN LOW, Sleep 2])
   \<and> (\<exists>rest. fst (scan_loop_iteration sample_device font_missing_env) =
                Gpio_output LED_PIN HIGH # rest)"
proof -
  have a: "\<not> has_display (sample_device\<lparr>has_display := False\<rparr>)"
    by simp
  have t: "update_display_try sample_device font_missing_env [] [] =
             ([Display_fill 0], Inl font_missing)"
    by (simp add: update_display_try_def font_missing_env_def sample_env_def sample_device_def
          extern_def bind_def emit_def ret_def raise_def)
  have b: "snd (update_display_try sample_device font_missing_env [] []) = Inl font_missing"
    by (simp add: t)
  have c: "board_I2C no_bus_setup = Inl no_i2c \<or> SSD1306_I2C no_bus_setup = Inl no_i2c"
    by (simp add: no_bus_setup_def)
  have d: "gpio_output_high font_missing_env = Inr () \<and> gpio_output_low font_missing_env = Inr ()"
    by (simp add: font_missing_env_def sample_env_def)
  have d': "gpio_output_high ((\<lambda>_. font_missing_env) (Suc 0)) = Inr ()"
    using d by simp
  note absent = display_failure_absorbed
    [of "sample_device\<lparr>has_display := False\<rparr>" sample_env "[]" "[]" font_missing
        no_bus_setup no_i2c 0 "\<lambda>_. sample_env"]
  note failing = display_failure_absorbed
    [of sample_device font_missing_env "[]" "[]" font_missing no_bus_setup no_i2c 0
        "\<lambda>_. font_missing_env"]
  show ?thesis
    using a b c d d' absent failing
    by (simp del: scan_loop.simps add: t no_bus_setup_def)
qed

end
